theory Spec2Isabelle
  imports Main
begin

section \<open>Strings: the library functions the engine calls\<close>

text \<open>
  Go strings are byte sequences; \<open>string\<close> (a list of 8-bit characters) is the same data.
  The engine itself (config.go, error.go) calls three functions of the package
  \<open>strings\<close> and \<open>strconv\<close>: \<open>strings.Split\<close> with the separator \<open>"."\<close>,
  \<open>strings.EqualFold\<close> and \<open>strconv.FormatInt\<close> in base 10. They are written out here
  from their documented behaviour.
\<close>

text \<open>\<open>strings.Split(s, ".")\<close>: the substrings between the dots, one more than there
  are dots; the empty string gives one empty substring.\<close>

fun Split :: "string \<Rightarrow> string list" where
  "Split [] = [[]]"
| "Split (c # cs) =
     (if c = CHR ''.'' then [] # Split cs
      else (c # hd (Split cs)) # tl (Split cs))"

text \<open>The dotted rendering of a sequence of segments: what repeated \<open>key + "." + Keys\<close>
  (the body of \<open>ConfigurationError.From\<close>) builds from the last segment backwards.\<close>

fun dotted :: "string list \<Rightarrow> string" where
  "dotted [] = []"
| "dotted [s] = s"
| "dotted (s # t # ss) = s @ ''.'' @ dotted (t # ss)"

text \<open>\<open>strings.EqualFold\<close> on ASCII: equality up to the case of the letters A to Z.
  (On bytes outside ASCII the library function decodes UTF-8 and also identifies
  the simple case-folding orbits of Unicode; here such bytes are compared as they are.)\<close>

definition lower :: "char \<Rightarrow> char" where
  "lower c = (let n = (of_char c :: nat) in if 65 \<le> n \<and> n \<le> 90 then char_of (n + 32) else c)"

definition EqualFold :: "string \<Rightarrow> string \<Rightarrow> bool" where
  "EqualFold s t = (map lower s = map lower t)"

text \<open>\<open>strconv.FormatInt(i, 10)\<close>.\<close>

fun digits :: "nat \<Rightarrow> string" where
  "digits n = (if n < 10 then [char_of (48 + n)] else digits (n div 10) @ [char_of (48 + n mod 10)])"

declare digits.simps [simp del]

definition FormatInt :: "int \<Rightarrow> string" where
  "FormatInt i = (if i < 0 then CHR ''-'' # digits (nat (- i)) else digits (nat i))"

definition FormatBool :: "bool \<Rightarrow> string" where
  "FormatBool b = (if b then ''true'' else ''false'')"


text \<open>The conversion \<open>string(rune)\<close>: the UTF-8 encoding of a code point, and U+FFFD
  for what is not one (negative, a surrogate half, beyond U+10FFFF).\<close>

definition runeString :: "int \<Rightarrow> string" where
  "runeString x =
     (if x < 0 \<or> 0x10FFFF < x \<or> (0xD800 \<le> x \<and> x \<le> 0xDFFF)
        then [char_of (0xEF :: int), char_of (0xBF :: int), char_of (0xBD :: int)]
      else if x < 0x80 then [char_of x]
      else if x < 0x800 then [char_of (0xC0 + x div 64), char_of (0x80 + x mod 64)]
      else if x < 0x10000
        then [char_of (0xE0 + x div 4096), char_of (0x80 + (x div 64) mod 64),
              char_of (0x80 + x mod 64)]
      else [char_of (0xF0 + x div 262144), char_of (0x80 + (x div 4096) mod 64),
            char_of (0x80 + (x div 64) mod 64), char_of (0x80 + x mod 64)])"

section \<open>error.go\<close>

text \<open>
  \<open>ConfigurationError\<close> is the base error holding the accumulated key;
  \<open>ErrNoSuchKey\<close>, \<open>ErrUnhandledKind\<close> and \<open>ErrIncompatibleType\<close> embed it.
  \<open>Kind\<close> is the name of a \<open>reflect.Kind\<close>. \<open>ErrIncompatibleType\<close> carries the
  target type; the source stores its printed form \<open>Type.String()\<close>, the model the
  type itself (types are declared below, so the error is parametric in it).
  \<open>From\<close> mutates the shared error object; here it returns the updated error.
\<close>

record ConfigurationError =
  Keys :: string

datatype 'ty KeyError =
    ErrNoSuchKey ConfigurationError
  | ErrUnhandledKind ConfigurationError string
  | ErrIncompatibleType ConfigurationError 'ty



definition From_base :: "string \<Rightarrow> ConfigurationError \<Rightarrow> ConfigurationError" where
  "From_base key e = e\<lparr>Keys := key @ ''.'' @ Keys e\<rparr>"

fun From :: "string \<Rightarrow> 'ty KeyError \<Rightarrow> 'ty KeyError" where
  "From key (ErrNoSuchKey e) = ErrNoSuchKey (From_base key e)"
| "From key (ErrUnhandledKind e k) = ErrUnhandledKind (From_base key e) k"
| "From key (ErrIncompatibleType e t) = ErrIncompatibleType (From_base key e) t"

text \<open>A call either returns a \<open>KeyError\<close> or panics (package \<open>reflect\<close> panics on
  misuse, and the engine recovers from nothing).\<close>

datatype 'ty failure = Error "'ty KeyError" | Panic

fun reraise :: "string \<Rightarrow> 'ty failure \<Rightarrow> 'ty failure" where
  "reraise name (Error err) = Error (From name err)"
| "reraise name Panic = Panic"

section \<open>Package reflect: kinds, types, values\<close>

text \<open>
  The engine sees the configuration only through package \<open>reflect\<close>. The part of it
  that config.go calls is modelled here, for the following universe of Go values:
  booleans, the eleven integer types, strings, structs, maps with string keys,
  pointers and \<open>interface{}\<close>. (Floating-point and complex numbers, slices, arrays,
  channels and functions are not represented.) Types are structural: a defined
  type stands for its underlying type literal, and \<open>int\<close>, \<open>uint\<close> and \<open>uintptr\<close>
  are 64 bits wide.
\<close>

datatype Kind =
    KInvalid | KBool
  | KInt | KInt8 | KInt16 | KInt32 | KInt64
  | KUint | KUint8 | KUint16 | KUint32 | KUint64 | KUintptr
  | KFloat32 | KFloat64 | KComplex64 | KComplex128
  | KArray | KChan | KFunc | KInterface | KMap | KPointer | KSlice | KString | KStruct
  | KUnsafePointer

fun Kind_String :: "Kind \<Rightarrow> string" where
  "Kind_String KInvalid = ''invalid''"
| "Kind_String KBool = ''bool''"
| "Kind_String KInt = ''int''"
| "Kind_String KInt8 = ''int8''"
| "Kind_String KInt16 = ''int16''"
| "Kind_String KInt32 = ''int32''"
| "Kind_String KInt64 = ''int64''"
| "Kind_String KUint = ''uint''"
| "Kind_String KUint8 = ''uint8''"
| "Kind_String KUint16 = ''uint16''"
| "Kind_String KUint32 = ''uint32''"
| "Kind_String KUint64 = ''uint64''"
| "Kind_String KUintptr = ''uintptr''"
| "Kind_String KFloat32 = ''float32''"
| "Kind_String KFloat64 = ''float64''"
| "Kind_String KComplex64 = ''complex64''"
| "Kind_String KComplex128 = ''complex128''"
| "Kind_String KArray = ''array''"
| "Kind_String KChan = ''chan''"
| "Kind_String KFunc = ''func''"
| "Kind_String KInterface = ''interface''"
| "Kind_String KMap = ''map''"
| "Kind_String KPointer = ''ptr''"
| "Kind_String KSlice = ''slice''"
| "Kind_String KString = ''string''"
| "Kind_String KStruct = ''struct''"
| "Kind_String KUnsafePointer = ''unsafe.Pointer''"

datatype IntType = GoInt | GoInt8 | GoInt16 | GoInt32 | GoInt64
  | GoUint | GoUint8 | GoUint16 | GoUint32 | GoUint64 | GoUintptr

fun IntKind :: "IntType \<Rightarrow> Kind" where
  "IntKind GoInt = KInt"
| "IntKind GoInt8 = KInt8"
| "IntKind GoInt16 = KInt16"
| "IntKind GoInt32 = KInt32"
| "IntKind GoInt64 = KInt64"
| "IntKind GoUint = KUint"
| "IntKind GoUint8 = KUint8"
| "IntKind GoUint16 = KUint16"
| "IntKind GoUint32 = KUint32"
| "IntKind GoUint64 = KUint64"
| "IntKind GoUintptr = KUintptr"

fun signed :: "IntType \<Rightarrow> bool" where
  "signed GoInt = True"
| "signed GoInt8 = True"
| "signed GoInt16 = True"
| "signed GoInt32 = True"
| "signed GoInt64 = True"
| "signed k = False"

fun bits :: "IntType \<Rightarrow> nat" where
  "bits GoInt8 = 8"
| "bits GoUint8 = 8"
| "bits GoInt16 = 16"
| "bits GoUint16 = 16"
| "bits GoInt32 = 32"
| "bits GoUint32 = 32"
| "bits k = 64"

text \<open>An integer conversion keeps the low bits: two's complement wrap-around.\<close>

definition wrap :: "IntType \<Rightarrow> int \<Rightarrow> int" where
  "wrap k n =
     (if signed k then (n + 2 ^ (bits k - 1)) mod 2 ^ bits k - 2 ^ (bits k - 1)
      else n mod 2 ^ bits k)"

datatype Type =
    TBool
  | TInt IntType
  | TString
  | TStruct "(string \<times> Type) list"
  | TMap Type
  | TPtr Type
  | TInterface

text \<open>
  A value is a tree. A struct holds its fields in declaration order; a map is nil
  or holds its entries; a pointer is nil or leads to the variable it points to; an
  interface is nil or holds its dynamic value. A map and a pointer carry their
  element type, which a nil one still has.

  The entries of a map stand in the order in which \<open>MapRange\<close> visits them. Go
  leaves that order unspecified; it matters only when two keys of one map are equal
  up to case, and a new key is put last.

  What a pointer or a map leads to is part of the tree: the model covers
  configurations in which no variable and no map is reachable along two paths.
\<close>

datatype val =
    VBool bool
  | VInt IntType int
  | VString string
  | VStruct "(string \<times> val) list"
  | VMap Type "(string \<times> val) list option"
  | VPtr Type "val option"
  | VInterface "val option"

fun type_of :: "val \<Rightarrow> Type" where
  "type_of (VBool b) = TBool"
| "type_of (VInt k n) = TInt k"
| "type_of (VString s) = TString"
| "type_of (VStruct fs) = TStruct (map (\<lambda>f. (fst f, type_of (snd f))) fs)"
| "type_of (VMap t m) = TMap t"
| "type_of (VPtr t x) = TPtr t"
| "type_of (VInterface x) = TInterface"

fun kind_of :: "val \<Rightarrow> Kind" where
  "kind_of (VBool b) = KBool"
| "kind_of (VInt k n) = IntKind k"
| "kind_of (VString s) = KString"
| "kind_of (VStruct fs) = KStruct"
| "kind_of (VMap t m) = KMap"
| "kind_of (VPtr t x) = KPointer"
| "kind_of (VInterface x) = KInterface"

text \<open>The zero value of a type: what \<open>reflect.New(t)\<close> points to.\<close>

fun zero :: "Type \<Rightarrow> val" where
  "zero TBool = VBool False"
| "zero (TInt k) = VInt k 0"
| "zero TString = VString []"
| "zero (TStruct fs) = VStruct (map (\<lambda>f. (fst f, zero (snd f))) fs)"
| "zero (TMap t) = VMap t None"
| "zero (TPtr t) = VPtr t None"
| "zero TInterface = VInterface None"

text \<open>
  A \<open>reflect.Value\<close>: the zero Value (of kind Invalid), or a value with two of its
  flags: \<open>flagAddr\<close> (the Value is a variable: \<open>CanAddr\<close>) and \<open>flagRO\<close> (it was
  reached through an unexported struct field). \<open>any\<close> is \<open>interface{}\<close>: nil, or a
  dynamic value, which is never itself of interface type.
\<close>

datatype Value = Zero | Value (content: val) (flagAddr: bool) (flagRO: bool)

type_synonym any = "val option"

fun ValueOf :: "any \<Rightarrow> Value" where
  "ValueOf None = Zero"
| "ValueOf (Some v) = Value v False False"

fun Value_Kind :: "Value \<Rightarrow> Kind" where
  "Value_Kind Zero = KInvalid"
| "Value_Kind (Value v a r) = kind_of v"

text \<open>\<open>v.Interface()\<close> panics on the zero Value and on a read-only Value.\<close>

fun Interface :: "Value \<Rightarrow> Type failure + any" where
  "Interface Zero = Inl Panic"
| "Interface (Value v a r) =
     (if r then Inl Panic
      else case v of VInterface x \<Rightarrow> Inr x | _ \<Rightarrow> Inr (Some v))"

text \<open>\<open>v.Elem()\<close> of an interface or a pointer: the zero Value when it is nil; what a
  pointer leads to is a variable. (On another kind \<open>Elem\<close> panics; the engine calls
  it on these two only.)\<close>

fun Elem :: "Value \<Rightarrow> Value" where
  "Elem (Value (VInterface (Some d)) a r) = Value d False r"
| "Elem (Value (VPtr t (Some d)) a r) = Value d True r"
| "Elem v = Zero"

text \<open>A field is exported when its name starts with an upper-case letter (ASCII here).\<close>

fun exported :: "string \<Rightarrow> bool" where
  "exported [] = False"
| "exported (c # cs) = (65 \<le> (of_char c :: nat) \<and> (of_char c :: nat) \<le> 90)"

text \<open>\<open>v.Field(i)\<close> of a struct: a variable when the struct is one, read-only when the
  struct is or the field is unexported.\<close>

fun Field :: "Value \<Rightarrow> nat \<Rightarrow> Value" where
  "Field (Value (VStruct fs) a r) i =
     Value (snd (fs ! i)) a (r \<or> \<not> exported (fst (fs ! i)))"
| "Field v i = Zero"

fun CanAddr :: "Value \<Rightarrow> bool" where
  "CanAddr Zero = False"
| "CanAddr (Value v a r) = a"

fun CanSet :: "Value \<Rightarrow> bool" where
  "CanSet Zero = False"
| "CanSet (Value v a r) = (a \<and> \<not> r)"

fun readonly :: "Value \<Rightarrow> bool" where
  "readonly Zero = False"
| "readonly (Value v a r) = r"

text \<open>
  \<open>Type.ConvertibleTo\<close> on the types of the universe: identical types, any type to
  \<open>interface{}\<close>, an integer type to any integer type and to \<open>string\<close>.
\<close>

fun is_int :: "Type \<Rightarrow> bool" where
  "is_int (TInt k) = True"
| "is_int t = False"

definition ConvertibleTo :: "Type \<Rightarrow> Type \<Rightarrow> bool" where
  "ConvertibleTo src dst =
     (src = dst \<or> dst = TInterface \<or> (is_int src \<and> (is_int dst \<or> dst = TString)))"

text \<open>\<open>v.CanConvert(t)\<close> asks for \<open>v.Type()\<close> first, which panics on the zero Value.\<close>

fun CanConvert :: "Value \<Rightarrow> Type \<Rightarrow> Type failure + bool" where
  "CanConvert Zero t = Inl Panic"
| "CanConvert (Value v a r) t = Inr (ConvertibleTo (type_of v) t)"

text \<open>Storing a value in an interface variable.\<close>

fun box :: "val \<Rightarrow> val" where
  "box (VInterface x) = VInterface x"
| "box v = VInterface (Some v)"

text \<open>\<open>v.Convert(t)\<close>, for a convertible \<open>v\<close>: the result is not a variable and keeps
  \<open>flagRO\<close>.\<close>

fun convert :: "val \<Rightarrow> Type \<Rightarrow> val" where
  "convert v TInterface = box v"
| "convert (VInt k n) (TInt k') = VInt k' (wrap k' n)"
| "convert (VInt k n) TString = VString (runeString n)"
| "convert v t = v"

fun Convert :: "Value \<Rightarrow> Type \<Rightarrow> Value" where
  "Convert Zero t = Zero"
| "Convert (Value v a r) t = Value (convert v t) False r"

text \<open>Assignability, which \<open>SetMapIndex\<close> demands of the element: an identical type, or
  an interface target.\<close>

fun assignTo :: "val \<Rightarrow> Type \<Rightarrow> val option" where
  "assignTo v t =
     (if type_of v = t then Some v
      else if t = TInterface then Some (box v)
      else None)"

text \<open>The first field or entry whose name equals \<open>name\<close> up to case: both loops of the
  engine run until \<open>strings.EqualFold(name, ...)\<close> holds and return from there.\<close>

fun find_fold :: "string \<Rightarrow> (string \<times> 'a) list \<Rightarrow> nat option" where
  "find_fold name [] = None"
| "find_fold name (f # fs) =
     (if EqualFold name (fst f) then Some 0 else map_option Suc (find_fold name fs))"

text \<open>The entries of a map after \<open>m[k] = v\<close> and after \<open>delete(m, k)\<close>.\<close>

fun map_store :: "string \<Rightarrow> val \<Rightarrow> (string \<times> val) list \<Rightarrow> (string \<times> val) list" where
  "map_store k v [] = [(k, v)]"
| "map_store k v (e # es) = (if fst e = k then (k, v) # es else e # map_store k v es)"

fun map_delete :: "string \<Rightarrow> (string \<times> val) list \<Rightarrow> (string \<times> val) list" where
  "map_delete k [] = []"
| "map_delete k (e # es) = (if fst e = k then es else e # map_delete k es)"

fun entries :: "Value \<Rightarrow> (string \<times> val) list" where
  "entries (Value (VMap t (Some es)) a r) = es"
| "entries v = []"

fun IsNil :: "Value \<Rightarrow> bool" where
  "IsNil (Value (VMap t None) a r) = True"
| "IsNil (Value (VPtr t None) a r) = True"
| "IsNil (Value (VInterface None) a r) = True"
| "IsNil v = False"

definition MakeMap :: "Type \<Rightarrow> Value" where
  "MakeMap t = Value (VMap t (Some [])) False False"

text \<open>\<open>i.Value()\<close> of the iterator at entry \<open>i\<close>: a copy of the element, read-only when
  the map is.\<close>

definition MapValue :: "Value \<Rightarrow> nat \<Rightarrow> Value" where
  "MapValue m i = Value (snd (entries m ! i)) False (readonly m)"

text \<open>
  \<open>m.SetMapIndex(key, elem)\<close>: panics when the map or the element is read-only or
  the element is not assignable to the element type of the map; deletes the key when
  \<open>elem\<close> is the zero Value; stores the element otherwise. The result is the map
  afterwards (the same map: it is updated in place).
\<close>

fun SetMapIndex :: "Value \<Rightarrow> string \<Rightarrow> Value \<Rightarrow> Type failure + Value" where
  "SetMapIndex (Value (VMap t (Some es)) a r) k Zero =
     (if r then Inl Panic else Inr (Value (VMap t (Some (map_delete k es))) a r))"
| "SetMapIndex (Value (VMap t (Some es)) a r) k (Value v a' r') =
     (if r \<or> r' then Inl Panic
      else case assignTo v t of
        None \<Rightarrow> Inl Panic
      | Some w \<Rightarrow> Inr (Value (VMap t (Some (map_store k w es))) a r))"
| "SetMapIndex m k e = Inl Panic"

text \<open>\<open>reflect.Indirect(reflect.New(t))\<close>: a fresh variable holding the zero value.\<close>

definition New_Elem :: "Type \<Rightarrow> Value" where
  "New_Elem t = Value (zero t) True False"

text \<open>\<open>v.Addr()\<close> of a variable: the pointer to it.\<close>

fun Addr :: "Value \<Rightarrow> Value" where
  "Addr Zero = Zero"
| "Addr (Value v a r) = Value (VPtr (type_of v) (Some v)) False r"

text \<open>\<open>p := reflect.New(e.Type()); p.Elem().Set(e)\<close>: a pointer to a fresh copy of
  \<open>e\<close>. \<open>Type\<close> panics on the zero Value, \<open>Set\<close> on a read-only argument.\<close>

fun New_Set :: "Value \<Rightarrow> Type failure + Value" where
  "New_Set Zero = Inl Panic"
| "New_Set (Value v a r) =
     (if r then Inl Panic else Inr (Value (VPtr (type_of v) (Some v)) False False))"

section \<open>The state a call leaves behind\<close>

text \<open>
  \<open>write\<close> returns a Value and may update the variables and maps below
  \<open>element\<close> in place. The model returns both: the result, and \<open>element\<close> as it is
  after the call. The functions below put the state a recursive call left behind
  (\<open>e'\<close>) back into the place of \<open>element\<close> it was taken from.
\<close>

fun after_Elem :: "Value \<Rightarrow> Value \<Rightarrow> Value" where
  "after_Elem (Value (VInterface (Some d)) a r) (Value d' a' r') = Value (VInterface (Some d')) a r"
| "after_Elem (Value (VPtr t (Some d)) a r) (Value d' a' r') = Value (VPtr t (Some d')) a r"
| "after_Elem element e' = element"

fun after_Field :: "Value \<Rightarrow> nat \<Rightarrow> Value \<Rightarrow> Value" where
  "after_Field (Value (VStruct fs) a r) i (Value d' a' r') =
     Value (VStruct (fs[i := (fst (fs ! i), d')])) a r"
| "after_Field element i e' = element"

fun after_MapValue :: "Value \<Rightarrow> nat \<Rightarrow> Value \<Rightarrow> Value" where
  "after_MapValue (Value (VMap t (Some es)) a r) i (Value d' a' r') =
     Value (VMap t (Some (es[i := (fst (es ! i), d')]))) a r"
| "after_MapValue element i e' = element"

section \<open>config.go: the engine\<close>

text \<open>
  \<open>write\<close> (named \<open>write'\<close>: the plain name is reserved in Isabelle) follows the
  source case by case. Its second result is \<open>element\<close> after the call.

  In the struct case, \<open>e.Set\<close> updates the field in place when \<open>e.CanSet()\<close>; otherwise
  \<open>n\<close> is a fresh copy of the struct (\<open>n.Set(element)\<close> panics on a read-only
  \<open>element\<close>), a variable, whose field is then set (\<open>Set\<close> panics on an unexported
  field and on a read-only argument).

  In the map case a nil map is replaced by a new one, which \<open>element\<close> then names:
  the nil map in its place stays nil.
\<close>

function (sequential) write' :: "string list \<Rightarrow> Value \<Rightarrow> any \<Rightarrow> (Type failure + Value) \<times> Value" where
  "write' [] element v = (Inr (ValueOf v), element)"
| "write' (name # key) (Value (VInterface x) a r) v =
     (let element = Value (VInterface x) a r;
          e = Elem element
      in case write' (name # key) e v of
        (Inl err, e') \<Rightarrow> (Inl err, after_Elem element e')
      | (Inr e1, e') \<Rightarrow>
          (case Interface e1 of
             Inl p \<Rightarrow> (Inl p, after_Elem element e')
           | Inr i \<Rightarrow> (Inr (ValueOf i), after_Elem element e')))"
| "write' (name # key) (Value (VPtr t x) a r) v =
     (let element = Value (VPtr t x) a r;
          e = Elem element
      in case write' (name # key) e v of
        (Inl err, e') \<Rightarrow> (Inl err, after_Elem element e')
      | (Inr e1, e') \<Rightarrow>
          (if CanAddr e1 then (Inr (Addr e1), after_Elem element e')
           else case New_Set e1 of
             Inl p \<Rightarrow> (Inl p, after_Elem element e')
           | Inr p \<Rightarrow> (Inr p, after_Elem element e')))"
| "write' (name # key) (Value (VStruct fs) a r) v =
     (let element = Value (VStruct fs) a r
      in case find_fold name fs of
        None \<Rightarrow> (Inl (Error (ErrNoSuchKey \<lparr>Keys = name\<rparr>)), element)
      | Some i \<Rightarrow>
          (let f_Name = fst (fs ! i);
               f_Type = type_of (snd (fs ! i));
               e = Field element i
           in case write' key e v of
             (Inl err, e') \<Rightarrow> (Inl (reraise name err), after_Field element i e')
           | (Inr x, e') \<Rightarrow>
               (let element' = after_Field element i e'
                in case CanConvert x f_Type of
                  Inl p \<Rightarrow> (Inl p, element')
                | Inr False \<Rightarrow>
                    (Inl (Error (ErrIncompatibleType \<lparr>Keys = name\<rparr> f_Type)), element')
                | Inr True \<Rightarrow>
                    (let c = Convert x f_Type
                     in if CanSet e then
                          (if readonly c then (Inl Panic, element')
                           else (Inr (after_Field element i c), after_Field element i c))
                        else if r then (Inl Panic, element')
                        else if \<not> exported f_Name \<or> readonly c then (Inl Panic, element')
                        else (Inr (after_Field (Value (content element') True False) i c),
                              element')))))"
| "write' (name # key) (Value (VMap t m) a r) v =
     (let element0 = Value (VMap t m) a r;
          element = (if IsNil element0 then MakeMap t else element0)
      in case find_fold name (entries element) of
        Some i \<Rightarrow>
          (let k = fst (entries element ! i);
               e = MapValue element i
           in case write' key e v of
             (Inl err, e') \<Rightarrow> (Inl (reraise name err), after_MapValue element i e')
           | (Inr x, e') \<Rightarrow>
               (case SetMapIndex (after_MapValue element i e') k x of
                  Inl p \<Rightarrow> (Inl p, after_MapValue element i e')
                | Inr element' \<Rightarrow> (Inr element', element')))
      | None \<Rightarrow>
          (let e = New_Elem t
           in case write' key e v of
             (Inl err, e') \<Rightarrow> (Inl (reraise name err), element0)
           | (Inr x, e') \<Rightarrow>
               (case CanConvert x t of
                  Inl p \<Rightarrow> (Inl p, element0)
                | Inr False \<Rightarrow>
                    (Inl (Error (ErrIncompatibleType \<lparr>Keys = name\<rparr> t)), element0)
                | Inr True \<Rightarrow>
                    (case SetMapIndex element name (Convert x t) of
                       Inl p \<Rightarrow> (Inl p, element0)
                     | Inr element' \<Rightarrow>
                         (Inr element', if IsNil element0 then element0 else element')))))"
| "write' (name # key) element v =
     (Inl (Error (ErrUnhandledKind \<lparr>Keys = name\<rparr> (Kind_String (Value_Kind element)))), element)"
  by pat_completeness auto
termination
proof (relation "measures [\<lambda>(key, element, v). length key,
                           \<lambda>(key, element, v). (case element of Zero \<Rightarrow> 0 | Value c a r \<Rightarrow> size c)]",
       goal_cases)
  case (2 name key x a r v)
  then show ?case by (cases x) auto
next
  case (3 name key t x a r v)
  then show ?case by (cases x) auto
qed auto

text \<open>\<open>read\<close>: it updates nothing. In the default case the source returns \<open>element\<close>
  beside the error; a caller that sees an error does not look at it.\<close>

function (sequential) read :: "string list \<Rightarrow> Value \<Rightarrow> Type failure + any" where
  "read [] element = Interface element"
| "read (name # key) (Value (VInterface x) a r) =
     read (name # key) (Elem (Value (VInterface x) a r))"
| "read (name # key) (Value (VPtr t x) a r) =
     read (name # key) (Elem (Value (VPtr t x) a r))"
| "read (name # key) (Value (VStruct fs) a r) =
     (case find_fold name fs of
        None \<Rightarrow> Inl (Error (ErrNoSuchKey \<lparr>Keys = name\<rparr>))
      | Some i \<Rightarrow>
          (case read key (Field (Value (VStruct fs) a r) i) of
             Inl err \<Rightarrow> Inl (reraise name err)
           | Inr x \<Rightarrow> Inr x))"
| "read (name # key) (Value (VMap t m) a r) =
     (if IsNil (Value (VMap t m) a r) then Inl (Error (ErrNoSuchKey \<lparr>Keys = name\<rparr>))
      else case find_fold name (entries (Value (VMap t m) a r)) of
        None \<Rightarrow> Inl (Error (ErrNoSuchKey \<lparr>Keys = name\<rparr>))
      | Some i \<Rightarrow>
          (case read key (MapValue (Value (VMap t m) a r) i) of
             Inl err \<Rightarrow> Inl (reraise name err)
           | Inr x \<Rightarrow> Inr x))"
| "read (name # key) element =
     Inl (Error (ErrUnhandledKind \<lparr>Keys = name\<rparr> (Kind_String (Value_Kind element))))"
  by pat_completeness auto
termination
proof (relation "measures [\<lambda>(key, element). length key,
                           \<lambda>(key, element). (case element of Zero \<Rightarrow> 0 | Value c a r \<Rightarrow> size c)]",
       goal_cases)
  case (2 name key x a r)
  then show ?case by (cases x) auto
next
  case (3 name key t x a r)
  then show ?case by (cases x) auto
qed auto

text \<open>
  The configuration holds the root in \<open>Data\<close>. \<open>Write\<close> assigns \<open>Data\<close> only when
  \<open>write\<close> succeeded; when it failed, \<open>Data\<close> still names what it named, in the state
  the call left it in. The result is the error returned (\<open>None\<close> for nil), or the
  panic.
\<close>

record config =
  Data :: any

definition New :: "any \<Rightarrow> config" where
  "New v = \<lparr>Data = v\<rparr>"

fun held :: "Value \<Rightarrow> any" where
  "held Zero = None"
| "held (Value v a r) = Some v"

definition Write :: "config \<Rightarrow> string \<Rightarrow> any \<Rightarrow> Type failure option \<times> config" where
  "Write c key v =
     (let d = ValueOf (Data c);
          k = Split key
      in case write' k d v of
        (Inl err, d') \<Rightarrow> (Some err, c\<lparr>Data := held d'\<rparr>)
      | (Inr x, d') \<Rightarrow>
          (case Interface x of
             Inl p \<Rightarrow> (Some p, c\<lparr>Data := held d'\<rparr>)
           | Inr i \<Rightarrow> (None, c\<lparr>Data := i\<rparr>)))"

definition Read :: "config \<Rightarrow> string \<Rightarrow> Type failure + any" where
  "Read c key = read (Split key) (ValueOf (Data c))"

text \<open>\<open>ReadString\<close>, on the kinds of the universe (the source has four more cases, for
  the floating-point and complex kinds). \<open>String\<close>, \<open>Int\<close> and \<open>Bool\<close> read a Value
  of that kind.\<close>

fun String :: "Value \<Rightarrow> string" where
  "String (Value (VString s) a r) = s"
| "String v = []"

fun Int_of :: "Value \<Rightarrow> int" where
  "Int_of (Value (VInt k n) a r) = n"
| "Int_of v = 0"

fun Bool_of :: "Value \<Rightarrow> bool" where
  "Bool_of (Value (VBool b) a r) = b"
| "Bool_of v = False"

definition ReadString :: "config \<Rightarrow> string \<Rightarrow> Type failure + string" where
  "ReadString c key =
     (case Read c key of
        Inl err \<Rightarrow> Inl err
      | Inr v \<Rightarrow>
          (let val = ValueOf v;
               k = Value_Kind val
           in if k = KString then Inr (String val)
              else if k = KInt \<or> k = KInt8 \<or> k = KInt32 \<or> k = KInt64
                then Inr (FormatInt (Int_of val))
              else if k = KBool then Inr (FormatBool (Bool_of val))
              else case CanConvert val TString of
                Inl p \<Rightarrow> Inl p
              | Inr True \<Rightarrow> Inr (String (Convert val TString))
              | Inr False \<Rightarrow> Inl (Error (ErrUnhandledKind \<lparr>Keys = key\<rparr> (Kind_String k)))))"

text \<open>\<open>Sub\<close>: every key is prefixed.\<close>

record sub =
  RW :: config
  Prefix :: string

definition resolve :: "sub \<Rightarrow> string \<Rightarrow> string" where
  "resolve s key = Prefix s @ ''.'' @ key"

section \<open>Notions for stating the properties\<close>

text \<open>The entry that a segment selects in a list of fields or of map entries.\<close>

definition lookup_fold :: "string \<Rightarrow> (string \<times> 'a) list \<Rightarrow> (string \<times> 'a) option" where
  "lookup_fold name fs = map_option (\<lambda>i. fs ! i) (find_fold name fs)"


text \<open>The kinds of value that a successful write with segments left returns.\<close>

fun container :: "val \<Rightarrow> bool" where
  "container (VStruct fs) = True"
| "container (VMap t m) = True"
| "container (VPtr t x) = True"
| "container v = False"


text \<open>
  A regular value is well typed (the entries of a map have its element type, a
  pointer leads to a variable of its element type, an interface holds a value that
  is not itself of interface type) and has no pointer that leads to an interface
  variable. \<open>Regular\<close> says it of a Value; \<open>in_range\<close> says that an integer is one
  that its type can hold.
\<close>

fun regular :: "val \<Rightarrow> bool" where
  "regular (VStruct fs) = list_all (\<lambda>f. regular (snd f)) fs"
| "regular (VMap t None) = True"
| "regular (VMap t (Some es)) = list_all (\<lambda>e. type_of (snd e) = t \<and> regular (snd e)) es"
| "regular (VPtr t None) = True"
| "regular (VPtr t (Some d)) = (type_of d = t \<and> kind_of d \<noteq> KInterface \<and> regular d)"
| "regular (VInterface None) = True"
| "regular (VInterface (Some d)) = (kind_of d \<noteq> KInterface \<and> regular d)"
| "regular v = True"

fun Regular :: "Value \<Rightarrow> bool" where
  "Regular Zero = True"
| "Regular (Value c a r) = regular c"



section \<open>Facts about the library functions\<close>

lemma Split_not_Nil: "Split s \<noteq> []"
  by (induction s) auto

lemma dotted_Cons: "xs \<noteq> [] \<Longrightarrow> dotted (x # xs) = x @ ''.'' @ dotted xs"
  by (cases xs) auto

lemma dotted_Split: "dotted (Split s) = s"
proof (induction s)
  case Nil
  show ?case by simp
next
  case (Cons c cs)
  obtain x xs where sp: "Split cs = x # xs"
    using Split_not_Nil [of cs] by (cases "Split cs") auto
  show ?case
  proof (cases "c = CHR ''.''")
    case True
    then show ?thesis using Cons.IH by (simp add: dotted_Cons Split_not_Nil)
  next
    case False
    then show ?thesis using Cons.IH sp by (cases xs) auto
  qed
qed

lemma length_Split: "length (Split s) = Suc (count_list s (CHR ''.''))"
proof (induction s)
  case Nil
  show ?case by simp
next
  case (Cons c cs)
  then show ?case using Split_not_Nil [of cs] by (cases "Split cs") auto
qed

lemma Split_no_dot: "list_all (\<lambda>seg. CHR ''.'' \<notin> set seg) (Split s)"
proof (induction s)
  case Nil
  show ?case by simp
next
  case (Cons c cs)
  then show ?case using Split_not_Nil [of cs] by (cases "Split cs") auto
qed

lemma EqualFold_refl: "EqualFold s s"
  by (simp add: EqualFold_def)

lemma EqualFold_sym: "EqualFold s t \<Longrightarrow> EqualFold t s"
  by (simp add: EqualFold_def)

lemma EqualFold_trans: "EqualFold s t \<Longrightarrow> EqualFold t u \<Longrightarrow> EqualFold s u"
  by (simp add: EqualFold_def)


section \<open>Error paths\<close>





text \<open>Package reflect never returns a \<open>KeyError\<close>: it panics.\<close>

lemma CanConvert_Inl: "CanConvert x t = Inl p \<Longrightarrow> p = Panic"
  by (cases x) auto

lemma Interface_Inl: "Interface x = Inl p \<Longrightarrow> p = Panic"
  by (cases x) (auto split: if_splits val.splits)

lemma New_Set_Inl: "New_Set x = Inl p \<Longrightarrow> p = Panic"
  by (cases x) (auto split: if_splits)

lemma SetMapIndex_Inl: "SetMapIndex m k x = Inl p \<Longrightarrow> p = Panic"
  by (induction m k x rule: SetMapIndex.induct) (auto split: if_splits option.splits)





section \<open>What a successful step of the write did\<close>

lemma find_fold_Some:
  "find_fold name fs = Some i \<Longrightarrow> i < length fs \<and> EqualFold name (fst (fs ! i))"
  by (induction fs arbitrary: i) (auto split: if_splits)

lemma find_fold_None:
  "find_fold name fs = None \<Longrightarrow> f \<in> set fs \<Longrightarrow> \<not> EqualFold name (fst f)"
  by (induction fs) (auto split: if_splits)

lemma find_fold_keys:
  "map fst fs' = map fst fs \<Longrightarrow> find_fold name fs' = find_fold name fs"
proof (induction fs arbitrary: fs')
  case Nil
  then show ?case by simp
next
  case (Cons f fs)
  then obtain g gs where "fs' = g # gs" by (cases fs') auto
  with Cons show ?case by auto
qed

lemma find_fold_update [simp]:
  "find_fold name (fs[i := (fst (fs ! i), w)]) = find_fold name fs"
proof (cases "i < length fs")
  case True
  then have "map fst (fs[i := (fst (fs ! i), w)]) = map fst fs"
    by (simp add: map_update list_update_same_conv)
  then show ?thesis by (rule find_fold_keys)
next
  case False
  then show ?thesis by (simp add: list_update_beyond)
qed


lemma map_store_found:
  "find_fold name es = Some i \<Longrightarrow>
   map_store (fst (es ! i)) w (es[i := (fst (es ! i), p)]) = es[i := (fst (es ! i), w)]"
proof (induction es arbitrary: i)
  case Nil
  then show ?case by simp
next
  case (Cons e es)
  show ?case
  proof (cases "EqualFold name (fst e)")
    case True
    with Cons.prems have "i = 0" by simp
    then show ?thesis by simp
  next
    case False
    with Cons.prems obtain i' where i': "i = Suc i'" "find_fold name es = Some i'" by auto
    have "EqualFold name (fst (es ! i'))" using i' find_fold_Some by blast
    with False have "fst e \<noteq> fst (es ! i')" by auto
    with i' Cons.IH [of i'] show ?thesis by simp
  qed
qed

lemma map_delete_found:
  "find_fold name es = Some i \<Longrightarrow>
   map_delete (fst (es ! i)) (es[i := (fst (es ! i), p)]) = take i es @ drop (Suc i) es"
proof (induction es arbitrary: i)
  case Nil
  then show ?case by simp
next
  case (Cons e es)
  show ?case
  proof (cases "EqualFold name (fst e)")
    case True
    with Cons.prems have "i = 0" by simp
    then show ?thesis by simp
  next
    case False
    with Cons.prems obtain i' where i': "i = Suc i'" "find_fold name es = Some i'" by auto
    have "EqualFold name (fst (es ! i'))" using i' find_fold_Some by blast
    with False have "fst e \<noteq> fst (es ! i')" by auto
    with i' Cons.IH [of i'] show ?thesis by simp
  qed
qed

lemma map_store_new:
  "find_fold name es = None \<Longrightarrow> map_store name w es = es @ [(name, w)]"
  by (induction es) (auto split: if_splits simp: EqualFold_refl)

lemma type_of_box [simp]: "type_of (box v) = TInterface"
  by (cases v) auto

lemma type_of_convert: "ConvertibleTo (type_of c) t \<Longrightarrow> type_of (convert c t) = t"
  by (cases c; cases t) (auto simp: ConvertibleTo_def)

lemma assignTo_convert:
  "ConvertibleTo (type_of c) t \<Longrightarrow> assignTo (convert c t) t = Some (convert c t)"
  by (simp add: type_of_convert)

declare assignTo.simps [simp del]

lemma CanConvert_Inr:
  "CanConvert x t = Inr b \<Longrightarrow> \<exists>c a r. x = Value c a r \<and> b = ConvertibleTo (type_of c) t"
  by (cases x) auto

lemma after_Field_struct:
  "\<exists>p. after_Field (Value (VStruct fs) a r) i e' = Value (VStruct (fs[i := (fst (fs ! i), p)])) a r"
proof (cases e')
  case Zero
  then show ?thesis by (intro exI [of _ "snd (fs ! i)"]) simp
next
  case (Value d a' r')
  then show ?thesis by auto
qed

lemma after_MapValue_map:
  "\<exists>p. after_MapValue (Value (VMap t (Some es)) a r) i e' = Value (VMap t (Some (es[i := (fst (es ! i), p)]))) a r"
proof (cases e')
  case Zero
  then show ?thesis by (intro exI [of _ "snd (es ! i)"]) simp
next
  case (Value d a' r')
  then show ?thesis by auto
qed

lemma SetMapIndex_Inr:
  "SetMapIndex m k x = Inr m' \<Longrightarrow>
   \<exists>t es a. m = Value (VMap t (Some es)) a False \<and>
     (case x of Zero \<Rightarrow> m' = Value (VMap t (Some (map_delete k es))) a False
      | Value c a' r' \<Rightarrow> \<not> r' \<and> (\<exists>w. assignTo c t = Some w \<and> m' = Value (VMap t (Some (map_store k w es))) a False))"
  by (induction m k x rule: SetMapIndex.induct) (auto split: if_splits option.splits)


lemma write_Ptr_Inr:
  assumes "write' (name # key) (Value (VPtr t xo) a r) v = (Inr x, post)"
  shows "\<exists>d c1 a1 r1 e'. xo = Some d \<and>
           write' (name # key) (Value d True r) v = (Inr (Value c1 a1 r1), e') \<and>
           (a1 \<or> \<not> r1) \<and>
           x = Value (VPtr (type_of c1) (Some c1)) False r1"
proof (cases xo)
  case None
  with assms show ?thesis by simp
next
  case (Some d)
  obtain res e' where w: "write' (name # key) (Value d True r) v = (res, e')"
    by (cases "write' (name # key) (Value d True r) v")
  with assms Some obtain e1 where e1: "res = Inr e1"
    by (cases res) (auto simp: Let_def)
  show ?thesis
  proof (cases e1)
    case Zero
    with assms Some w e1 show ?thesis by (auto simp: Let_def)
  next
    case (Value c1 a1 r1)
    with assms Some w e1 show ?thesis
      by (auto simp: Let_def split: if_splits)
  qed
qed

lemma write_Struct_Inr:
  assumes "write' (name # key) (Value (VStruct fs) a r) v = (Inr x, post)"
  shows "\<exists>i c0 a0 e' ax. find_fold name fs = Some i \<and> exported (fst (fs ! i)) \<and> \<not> r \<and>
           write' key (Value (snd (fs ! i)) a False) v = (Inr (Value c0 a0 False), e') \<and>
           ConvertibleTo (type_of c0) (type_of (snd (fs ! i))) \<and>
           x = Value (VStruct (fs[i := (fst (fs ! i), convert c0 (type_of (snd (fs ! i))))])) ax False"
proof -
  from assms obtain i where i: "find_fold name fs = Some i"
    by (cases "find_fold name fs") (auto simp: Let_def)
  let ?e = "Value (snd (fs ! i)) a (r \<or> \<not> exported (fst (fs ! i)))"
  let ?T = "type_of (snd (fs ! i))"
  obtain res e' where w: "write' key ?e v = (res, e')"
    by (cases "write' key ?e v")
  with assms i obtain x0 where x0: "res = Inr x0"
    by (cases res) (auto simp: Let_def)
  with assms i w have cc: "CanConvert x0 ?T = Inr True"
    by (auto simp: Let_def split: sum.splits bool.splits)
  then obtain c0 a0 r0 where v0: "x0 = Value c0 a0 r0" "ConvertibleTo (type_of c0) ?T"
    by (auto dest: CanConvert_Inr)
  obtain p where p: "after_Field (Value (VStruct fs) a r) i e' = Value (VStruct (fs[i := (fst (fs ! i), p)])) a r"
    using after_Field_struct by blast
  have il: "i < length fs" using i find_fold_Some by blast
  from assms i w x0 cc v0 p il have "\<not> r0 \<and> \<not> r \<and> exported (fst (fs ! i)) \<and>
      (\<exists>ax. x = Value (VStruct (fs[i := (fst (fs ! i), convert c0 ?T)])) ax False)"
    by (auto simp: Let_def split: if_splits)
  with i w x0 v0 show ?thesis by auto
qed

lemma write_Map_Inr:
  assumes "write' (name # key) (Value (VMap t m) a r) v = (Inr x, post)"
  shows "(\<exists>es i e'. m = Some es \<and> find_fold name es = Some i \<and> \<not> r \<and>
            write' key (Value (snd (es ! i)) False False) v = (Inr Zero, e') \<and>
            x = Value (VMap t (Some (take i es @ drop (Suc i) es))) a False) \<or>
         (\<exists>es i c0 a0 e' w. m = Some es \<and> find_fold name es = Some i \<and> \<not> r \<and>
            write' key (Value (snd (es ! i)) False False) v = (Inr (Value c0 a0 False), e') \<and>
            assignTo c0 t = Some w \<and>
            x = Value (VMap t (Some (es[i := (fst (es ! i), w)]))) a False) \<or>
         (\<exists>c0 a0 e' ax. find_fold name (entries (Value (VMap t m) a r)) = None \<and>
            (m = None \<or> \<not> r) \<and>
            write' key (New_Elem t) v = (Inr (Value c0 a0 False), e') \<and>
            ConvertibleTo (type_of c0) t \<and>
            x = Value (VMap t (Some (entries (Value (VMap t m) a r) @ [(name, convert c0 t)]))) ax False)"
proof (cases "find_fold name (entries (Value (VMap t m) a r))")
  case None
  let ?el = "if IsNil (Value (VMap t m) a r) then MakeMap t else Value (VMap t m) a r"
  have ent: "entries ?el = entries (Value (VMap t m) a r)"
    by (cases m) (auto simp: MakeMap_def)
  obtain res e' where w: "write' key (New_Elem t) v = (res, e')"
    by (cases "write' key (New_Elem t) v")
  with assms None ent obtain x0 where x0: "res = Inr x0"
    by (cases res) (auto simp: Let_def)
  with assms None ent w have cc: "CanConvert x0 t = Inr True"
    by (auto simp: Let_def split: sum.splits bool.splits)
  then obtain c0 a0 r0 where v0: "x0 = Value c0 a0 r0" "ConvertibleTo (type_of c0) t"
    by (auto dest: CanConvert_Inr)
  from assms None ent w x0 cc have s: "SetMapIndex ?el name (Convert x0 t) = Inr x"
    by (auto simp: Let_def split: sum.splits)
  from SetMapIndex_Inr [OF s] v0 None
  have "\<not> r0 \<and> (m = None \<or> \<not> r) \<and>
     (\<exists>ax. x = Value (VMap t (Some (entries (Value (VMap t m) a r) @ [(name, convert c0 t)]))) ax False)"
    by (cases m) (auto simp: MakeMap_def assignTo_convert map_store_new split: if_splits)
  with None w x0 v0 show ?thesis by auto
next
  case (Some i)
  then obtain es where m: "m = Some es" by (cases m) auto
  let ?el = "Value (VMap t (Some es)) a r"
  from Some m have i: "find_fold name es = Some i" by simp
  obtain res e' where w: "write' key (MapValue ?el i) v = (res, e')"
    by (cases "write' key (MapValue ?el i) v")
  with assms i m obtain x0 where x0: "res = Inr x0"
    by (cases res) (auto simp: Let_def)
  obtain p where p: "after_MapValue ?el i e' = Value (VMap t (Some (es[i := (fst (es ! i), p)]))) a r"
    using after_MapValue_map by blast
  from assms i m w x0 have s: "SetMapIndex (after_MapValue ?el i e') (fst (es ! i)) x0 = Inr x"
    by (auto simp: Let_def split: sum.splits)
  from SetMapIndex_Inr [OF s] p have nr: "\<not> r" by auto
  show ?thesis
  proof (cases x0)
    case Zero
    with SetMapIndex_Inr [OF s] p i
    have "x = Value (VMap t (Some (take i es @ drop (Suc i) es))) a False"
      by (auto simp: map_delete_found)
    with m i nr w x0 Zero show ?thesis by (auto simp: MapValue_def)
  next
    case (Value c0 a0 r0)
    with SetMapIndex_Inr [OF s] p i
    have "\<not> r0 \<and> (\<exists>w. assignTo c0 t = Some w \<and>
                 x = Value (VMap t (Some (es[i := (fst (es ! i), w)]))) a False)"
      by (auto simp: map_store_found)
    with m i nr w x0 Value show ?thesis by (auto simp: MapValue_def)
  qed
qed



section \<open>Reading\<close>




lemma read_scalar:
  "q \<noteq> [] \<Longrightarrow> \<not> container c \<Longrightarrow> kind_of c \<noteq> KInterface \<Longrightarrow> read q (Value c a r) \<noteq> Inr y"
  by (cases q; cases c) auto



lemma lookup_fold_Nil [simp]: "lookup_fold b [] = None"
  by (simp add: lookup_fold_def)

lemma lookup_fold_Cons [simp]:
  "lookup_fold b (e # es) = (if EqualFold b (fst e) then Some e else lookup_fold b es)"
  by (cases "find_fold b es") (simp_all add: lookup_fold_def)















section \<open>Writing, then reading\<close>








section \<open>Writes that succeed, writes that fail\<close>



lemma IntKind_not_Interface [simp]: "IntKind k \<noteq> KInterface"
  by (cases k) auto

lemma kind_type_Interface: "kind_of c = KInterface \<longleftrightarrow> type_of c = TInterface"
  by (cases c) auto

lemma kind_Interface_ex: "kind_of c = KInterface \<longleftrightarrow> (\<exists>y. c = VInterface y)"
  by (cases c) auto



lemma type_of_update:
  assumes "i < length fs" "type_of w = type_of (snd (fs ! i))"
  shows "type_of (VStruct (fs[i := (fst (fs ! i), w)])) = type_of (VStruct fs)"
proof -
  have "map (\<lambda>f. (fst f, type_of (snd f))) (fs[i := (fst (fs ! i), w)]) =
        (map (\<lambda>f. (fst f, type_of (snd f))) fs)[i := (fst (fs ! i), type_of (snd (fs ! i)))]"
    using assms by (simp add: map_update)
  also have "\<dots> = map (\<lambda>f. (fst f, type_of (snd f))) fs"
    using assms(1) by (simp add: list_update_same_conv)
  finally show ?thesis by simp
qed

lemma convertible_after_write:
  "type_of c0 = type_of f \<or> kind_of f = KInterface \<Longrightarrow> ConvertibleTo (type_of c0) (type_of f)"
  by (auto simp: ConvertibleTo_def kind_type_Interface)




lemma after_Elem_same [simp]: "after_Elem element (Elem element) = element"
  by (induction element rule: Elem.induct) auto

lemma after_Field_same [simp]: "after_Field (Value (VStruct fs) a r) i (Field (Value (VStruct fs) a r) i) = Value (VStruct fs) a r"
  by simp

lemma after_MapValue_same [simp]:
  "after_MapValue (Value (VMap t (Some es)) a r) i (MapValue (Value (VMap t (Some es)) a r) i) =
   Value (VMap t (Some es)) a r"
  by (simp add: MapValue_def)

lemma write_keeps_type:
  "write' key element v = (Inr (Value cx ax rx), post) \<Longrightarrow> key \<noteq> [] \<Longrightarrow> Regular element \<Longrightarrow>
   type_of cx = type_of (content element) \<or> kind_of (content element) = KInterface"
proof (induction key element v arbitrary: cx ax rx post rule: write'.induct)
  case (3 name key t xo a r v)
  from write_Ptr_Inr [OF "3.prems"(1)] obtain d c1 a1 r1 e' where
    s: "xo = Some d" "write' (name # key) (Value d True r) v = (Inr (Value c1 a1 r1), e')"
       "Value cx ax rx = Value (VPtr (type_of c1) (Some c1)) False r1"
    by blast
  from "3.prems"(3) s(1) have rg: "type_of d = t" "kind_of d \<noteq> KInterface" "regular d" by auto
  from "3.IH" [OF refl refl, of c1 a1 r1 e'] s rg have "type_of c1 = type_of d" by auto
  with s(3) rg(1) show ?case by auto
next
  case (4 name key fs a r v)
  from write_Struct_Inr [OF "4.prems"(1)] obtain i c0 where
    s: "find_fold name fs = Some i"
       "ConvertibleTo (type_of c0) (type_of (snd (fs ! i)))"
       "cx = VStruct (fs[i := (fst (fs ! i), convert c0 (type_of (snd (fs ! i))))])"
    by auto
  have il: "i < length fs" using s(1) find_fold_Some by blast
  have "type_of cx = type_of (VStruct fs)"
    unfolding s(3) using il type_of_convert [OF s(2)] by (rule type_of_update)
  then show ?case by simp
next
  case (5 name key t m a r v)
  from write_Map_Inr [OF "5.prems"(1)] show ?case by auto
qed auto

lemma failed_write_unchanged:
  "write' key element v = (Inl (Error err), post) \<Longrightarrow> Regular element \<Longrightarrow> post = element"
proof (induction key element v arbitrary: err post rule: write'.induct)
  case (1 element v)
  then show ?case by simp
next
  case (2 name key xo a r v)
  let ?el = "Value (VInterface xo) a r"
  obtain res e' where w: "write' (name # key) (Elem ?el) v = (res, e')"
    by (cases "write' (name # key) (Elem ?el) v")
  from "2.prems"(2) have rg: "Regular (Elem ?el)" by (cases xo) auto
  show ?case
  proof (cases res)
    case (Inl f)
    with "2.prems"(1) w have "f = Error err" "post = after_Elem ?el e'" by (auto simp: Let_def)
    with "2.IH" [OF refl refl, of err e'] w Inl rg show ?thesis by simp
  next
    case (Inr e1)
    with "2.prems"(1) w show ?thesis
      by (auto simp: Let_def split: sum.splits dest: Interface_Inl)
  qed
next
  case (3 name key t xo a r v)
  let ?el = "Value (VPtr t xo) a r"
  obtain res e' where w: "write' (name # key) (Elem ?el) v = (res, e')"
    by (cases "write' (name # key) (Elem ?el) v")
  from "3.prems"(2) have rg: "Regular (Elem ?el)" by (cases xo) auto
  show ?case
  proof (cases res)
    case (Inl f)
    with "3.prems"(1) w have "f = Error err" "post = after_Elem ?el e'" by (auto simp: Let_def)
    with "3.IH" [OF refl refl, of err e'] w Inl rg show ?thesis by simp
  next
    case (Inr e1)
    with "3.prems"(1) w show ?thesis
      by (auto simp: Let_def split: sum.splits if_splits dest: New_Set_Inl)
  qed
next
  case (4 name key fs a r v)
  let ?el = "Value (VStruct fs) a r"
  show ?case
  proof (cases "find_fold name fs")
    case None
    with "4.prems"(1) show ?thesis by simp
  next
    case (Some i)
    have il: "i < length fs" using Some find_fold_Some by blast
    with "4.prems"(2) have rg: "Regular (Field ?el i)" by (simp add: list_all_length)
    obtain res e' where w: "write' key (Field ?el i) v = (res, e')"
      by (cases "write' key (Field ?el i) v")
    show ?thesis
    proof (cases res)
      case (Inl f)
      with "4.prems"(1) Some w obtain e0 where e0: "f = Error e0" "post = after_Field ?el i e'"
        by (cases f) (auto simp: Let_def)
      from "4.IH" [OF refl Some refl refl refl, of e0 e'] w Inl e0 rg have "e' = Field ?el i" by simp
      with e0(2) show ?thesis by simp
    next
      case (Inr x)
      with "4.prems"(1) Some w have cc: "CanConvert x (type_of (snd (fs ! i))) = Inr False"
        and post: "post = after_Field ?el i e'"
        by (auto simp: Let_def split: sum.splits bool.splits if_splits dest: CanConvert_Inl)
      from cc obtain c0 a0 r0 where x: "x = Value c0 a0 r0"
        "\<not> ConvertibleTo (type_of c0) (type_of (snd (fs ! i)))"
        by (auto dest: CanConvert_Inr)
      show ?thesis
      proof (cases key)
        case Nil
        with w have "e' = Field ?el i" by simp
        with post show ?thesis by simp
      next
        case (Cons k' key')
        from write_keeps_type [OF w [unfolded Inr x]] Cons rg
        have "type_of c0 = type_of (snd (fs ! i)) \<or> kind_of (snd (fs ! i)) = KInterface" by simp
        with x(2) show ?thesis using convertible_after_write by blast
      qed
    qed
  qed
next
  case (5 name key t m a r v)
  let ?el0 = "Value (VMap t m) a r"
  let ?el = "if IsNil ?el0 then MakeMap t else ?el0"
  show ?case
  proof (cases "find_fold name (entries ?el)")
    case None
    with "5.prems"(1) show ?thesis
      by (auto simp: Let_def split: prod.splits sum.splits bool.splits dest: CanConvert_Inl SetMapIndex_Inl)
  next
    case (Some i)
    then obtain es where m: "m = Some es" by (cases m) (auto simp: MakeMap_def)
    have il: "i < length es" using Some m find_fold_Some [of name es i] by simp
    with "5.prems"(2) m have rg: "Regular (MapValue ?el i)"
      by (simp add: list_all_length MapValue_def)
    obtain res e' where w: "write' key (MapValue ?el i) v = (res, e')"
      by (cases "write' key (MapValue ?el i) v")
    show ?thesis
    proof (cases res)
      case (Inl f)
      with "5.prems"(1) Some w obtain e0 where e0: "f = Error e0" "post = after_MapValue ?el i e'"
        by (cases f) (auto simp: Let_def)
      from "5.IH"(2) [OF refl refl Some refl refl, of e0 e'] w Inl e0 rg have "e' = MapValue ?el i" by simp
      with e0(2) m show ?thesis by simp
    next
      case (Inr x)
      with "5.prems"(1) Some w show ?thesis
        by (auto simp: Let_def split: sum.splits dest: SetMapIndex_Inl)
    qed
  qed
qed auto



lemma failed_Write_unchanged:
  assumes "Write c key v = (Some (Error err), c')" "Regular (ValueOf (Data c))"
  shows "c' = c"
proof -
  obtain res post where w: "write' (Split key) (ValueOf (Data c)) v = (res, post)"
    by (cases "write' (Split key) (ValueOf (Data c)) v")
  with assms(1) have "res = Inl (Error err)" "c' = c\<lparr>Data := held post\<rparr>"
    by (auto simp: Write_def Let_def split: sum.splits dest: Interface_Inl)
  with w failed_write_unchanged [OF _ assms(2), of "Split key" v err post]
  have "c' = c\<lparr>Data := held (ValueOf (Data c))\<rparr>" by simp
  then show ?thesis by (cases "Data c") auto
qed


section \<open>The frame and the round trip\<close>








section \<open>Failed writes\<close>

text \<open>
  Claim C2 says that a \<open>Write\<close> that returns an error leaves the held root as it
  was, so that every \<open>Read\<close> afterwards returns what it returned before. \<open>Write\<close>
  assigns \<open>Data\<close> only on success, but \<open>write\<close> updates struct fields and maps in
  place on its way back up, and a frame further up can still fail. It does when a
  pointer to an interface variable is on the path: the pointer case returns a pointer
  to the dynamic type, which the struct case above finds not convertible to the
  type of its field. Here the root is a pointer to \<open>struct { P *interface{} }\<close>, and
  \<open>P\<close> leads to an interface holding a pointer to \<open>struct { X string }\<close>:
\<close>

theorem failed_Write_changes_root:
  "Write (New (Some (VPtr (TStruct [(''P'', TPtr TInterface)])
       (Some (VStruct [(''P'', VPtr TInterface (Some (VInterface (Some
          (VPtr (TStruct [(''X'', TString)]) (Some (VStruct [(''X'', VString [])])))))))])))))
     ''p.x'' (Some (VString ''hello'')) =
     (Some (Error (ErrIncompatibleType \<lparr>Keys = ''p''\<rparr> (TPtr TInterface))),
      New (Some (VPtr (TStruct [(''P'', TPtr TInterface)])
       (Some (VStruct [(''P'', VPtr TInterface (Some (VInterface (Some
          (VPtr (TStruct [(''X'', TString)]) (Some (VStruct [(''X'', VString ''hello'')])))))))]))))) \<and>
   Read (New (Some (VPtr (TStruct [(''P'', TPtr TInterface)])
       (Some (VStruct [(''P'', VPtr TInterface (Some (VInterface (Some
          (VPtr (TStruct [(''X'', TString)]) (Some (VStruct [(''X'', VString [])])))))))])))))
     ''p.x'' = Inr (Some (VString [])) \<and>
   Read (New (Some (VPtr (TStruct [(''P'', TPtr TInterface)])
       (Some (VStruct [(''P'', VPtr TInterface (Some (VInterface (Some
          (VPtr (TStruct [(''X'', TString)]) (Some (VStruct [(''X'', VString ''hello'')])))))))])))))
     ''p.x'' = Inr (Some (VString ''hello''))"
  by code_simp

text \<open>
  The pointer to an interface variable is what it takes: on a regular root a \<open>Write\<close>
  that returns an error has changed nothing (lemma \<open>failed_Write_unchanged\<close> above).
\<close>

section \<open>Key paths\<close>

text \<open>
  Claim C10 says that the path used for traversal consists of non-empty segments.
  \<open>Read\<close> and \<open>Write\<close> pass \<open>strings.Split(key, ".")\<close> on as it is: the empty key is
  one empty segment, and between two consecutive dots stands an empty segment.
\<close>

theorem Split_empty_segments:
  "Split [] = [[]] \<and> Split ''a..b'' = [''a'', [], ''b''] \<and>
   Read (New (Some (VStruct [(''Foo'', VString ''x'')]))) [] =
     Inl (Error (ErrNoSuchKey \<lparr>Keys = []\<rparr>))"
  by code_simp

text \<open>
  Claim C10, amended: the path is the key split at its dots, into one segment more
  than the key has dots; no segment holds a dot, a segment may be empty, and the
  segments joined by dots are the key.
\<close>

theorem Split_segments:
  "length (Split key) = Suc (count_list key (CHR ''.'')) \<and>
   list_all (\<lambda>seg. CHR ''.'' \<notin> set seg) (Split key) \<and>
   dotted (Split key) = key \<and>
   Read c key = read (Split key) (ValueOf (Data c))"
  by (simp add: length_Split Split_no_dot dotted_Split Read_def)

theorem Split_segments_witness:
  "length (Split ''a..b'') = 3 \<and> dotted [''a'', [], ''b''] = ''a..b''"
  using Split_segments [of "''a..b''"] by simp

section \<open>Empty indirections\<close>

text \<open>
  Claim C5 says that a read reaching a nil pointer or a nil interface with a
  non-empty remaining path fails with \<open>NoSuchKey\<close>. The read case of a pointer and of
  an interface calls \<open>Elem\<close> and recurses without a nil check, so the recursion meets
  the zero Value, of kind Invalid, in its default case.
\<close>

theorem read_nil_pointer_example:
  "Read (New (Some (VPtr (TStruct [(''Foo'', TString)]) None))) ''foo'' =
     Inl (Error (ErrUnhandledKind \<lparr>Keys = ''foo''\<rparr> ''invalid''))"
  by code_simp

text \<open>
  Claim C5, amended: a read that reaches a nil pointer or a nil interface with a
  non-empty remaining path fails with \<open>UnhandledKind\<close>, of kind \<open>invalid\<close>, whose key is
  the first unconsumed segment.
\<close>

theorem read_nil_indirection:
  "read (name # key) (Value (VPtr t None) a r) =
     Inl (Error (ErrUnhandledKind \<lparr>Keys = name\<rparr> (Kind_String KInvalid))) \<and>
   read (name # key) (Value (VInterface None) a r) =
     Inl (Error (ErrUnhandledKind \<lparr>Keys = name\<rparr> (Kind_String KInvalid)))"
  by simp

text \<open>
  Claim C6 says that a write reaching a nil pointer or a nil interface creates an
  empty wrapped value and writes into it, so that it succeeds whenever the write
  into a fresh value does. Writing \<open>foo\<close> into a fresh struct succeeds; through a
  nil pointer to that struct type it fails.
\<close>

theorem write_nil_pointer_example:
  "fst (write' [''foo''] (New_Elem (TStruct [(''Foo'', TString)])) (Some (VString ''x''))) =
     Inr (Value (VStruct [(''Foo'', VString ''x'')]) True False) \<and>
   Write (New (Some (VPtr (TStruct [(''Foo'', TString)]) None))) ''foo'' (Some (VString ''x'')) =
     (Some (Error (ErrUnhandledKind \<lparr>Keys = ''foo''\<rparr> ''invalid'')),
      New (Some (VPtr (TStruct [(''Foo'', TString)]) None)))"
  by code_simp

text \<open>
  Claim C6, amended: a write that reaches a nil pointer or a nil interface with
  segments remaining fails with \<open>UnhandledKind\<close>, of kind \<open>invalid\<close>, carrying the first
  unconsumed segment; nothing is created, and the indirection stays nil.
\<close>

theorem write_nil_indirection:
  "write' (name # key) (Value (VPtr t None) a r) v =
     (Inl (Error (ErrUnhandledKind \<lparr>Keys = name\<rparr> (Kind_String KInvalid))),
      Value (VPtr t None) a r) \<and>
   write' (name # key) (Value (VInterface None) a r) v =
     (Inl (Error (ErrUnhandledKind \<lparr>Keys = name\<rparr> (Kind_String KInvalid))),
      Value (VInterface None) a r)"
  by simp

section \<open>Type checks on write\<close>

text \<open>
  Claim C3 says that every assignment site answers a value of the wrong type with
  \<open>IncompatibleType\<close>, the store into an existing map entry included. The struct
  case and the new-key case ask \<open>CanConvert\<close> first; the existing-entry case hands
  the value to \<open>SetMapIndex\<close> unchecked, which panics on a value that is not
  assignable. Writing a boolean over an entry of a \<open>map[string]string\<close>:
\<close>

theorem write_existing_entry_panics:
  "Write (New (Some (VMap TString (Some [(''Foo'', VString ''x'')])))) ''foo'' (Some (VBool True)) =
     (Some Panic, New (Some (VMap TString (Some [(''Foo'', VString ''x'')]))))"
  by code_simp

section \<open>ReadString\<close>

text \<open>
  Claim C7 says that \<open>ReadString\<close> gives the decimal representation of a value of
  any integer kind. The integer case lists \<open>Int\<close>, \<open>Int8\<close>, \<open>Int32\<close> and \<open>Int64\<close>; an
  \<open>int16\<close> and the unsigned kinds reach the default case, where the conversion to
  \<open>string\<close> gives the character with that code point. For an \<open>int16\<close> field holding
  65:
\<close>

theorem ReadString_int16:
  "ReadString (New (Some (VStruct [(''Foo'', VInt GoInt16 65)]))) ''foo'' = Inr ''A'' \<and>
   FormatInt 65 = ''65''"
  by code_simp

end
